theory Spec2Isabelle
  imports Complex_Main
begin

section \<open>Telemetry data model\<close>

text \<open>
  The charts consume plain JSON objects. Numbers that arrive in the JSON are finite, so a
  field of a telemetry point is a \<open>real\<close>; rounding of IEEE doubles is not modelled.
  A field that may be absent (\<open>null\<close> or \<open>undefined\<close> in the JavaScript) is an option.
  The point fields are the ones the three telemetry charts read: \<open>distance\<close>, \<open>speed\<close>,
  \<open>rpm\<close>, \<open>x\<close>, \<open>y\<close>, \<open>time_ms\<close> and \<open>drs\<close> (throttle, gear and brake only feed
  drawing calls and text labels).
\<close>

record point =
  distance :: real
  speed :: "real option"
  rpm :: "real option"
  px :: "real option"
  py :: "real option"
  time_ms :: "real option"
  drs :: "real option"

text \<open>
  A lap object \<open>{driver_id, lap_number, telemetry}\<close>. The charts test \<open>lap.telemetry\<close>
  for presence, so it is optional.
\<close>

record lap =
  driver_id :: string
  lap_number :: nat
  telemetry :: "point list option"

text \<open>
  Lap objects are compared by identity (\<open>lap === this.referenceLap\<close>), so a lap is
  handled through a reference into a store of lap objects. The charts never write to a lap.
\<close>

type_synonym lap_ref = nat
type_synonym lap_store = "lap_ref \<Rightarrow> lap"

datatype js_error = TypeError

section \<open>Nearest-sample lookup\<close>

text \<open>
  \<open>Array.prototype.reduce\<close> without an initial value: the first element seeds the
  accumulator, and an empty array throws a TypeError.
\<close>

definition reduce1 :: "('a \<Rightarrow> 'a \<Rightarrow> 'a) \<Rightarrow> 'a list \<Rightarrow> js_error + 'a" where
  "reduce1 f xs = (case xs of [] \<Rightarrow> Inl TypeError | x # rest \<Rightarrow> Inr (foldl f x rest))"

text \<open>
  The callback shared by \<open>TelemetryChart.handleMouseMove\<close>,
  \<open>MultiTelemetryChart.handleMouseMove\<close>, \<open>MultiTelemetryChart.calculateDelta\<close> and
  \<open>TrackMapChart.drawDistanceMarker\<close>:
  \<^verbatim>\<open>(prev, curr) => Math.abs(curr.distance - d) < Math.abs(prev.distance - d) ? curr : prev\<close>
\<close>

definition closer :: "real \<Rightarrow> point \<Rightarrow> point \<Rightarrow> point" where
  "closer d prev cur =
     (if \<bar>distance cur - d\<bar> < \<bar>distance prev - d\<bar> then cur else prev)"

definition nearest_point :: "point list \<Rightarrow> real \<Rightarrow> js_error + point" where
  "nearest_point tel d = reduce1 (closer d) tel"

text \<open>A point that carries only a distance and a speed.\<close>

definition mk_point :: "real \<Rightarrow> real \<Rightarrow> point" where
  "mk_point d s = \<lparr>distance = d, speed = Some s, rpm = None, px = None, py = None,
                   time_ms = None, drs = None\<rparr>"

section \<open>JavaScript numbers that may leave the finite range\<close>

text \<open>
  Division in JavaScript never throws: a zero divisor gives \<open>Infinity\<close>, \<open>-Infinity\<close> or
  \<open>NaN\<close>, and these values then flow through the following arithmetic. Values computed by
  a division whose divisor may be zero are therefore modelled by \<open>jsnum\<close>: a finite real or
  one of the three special values. Rounding, overflow of finite values and the sign of zero
  are not modelled (a zero divisor counts as \<open>+0\<close>).
\<close>

datatype jsnum = Fin real | PosInf | NegInf | NaN

fun js_div :: "jsnum \<Rightarrow> jsnum \<Rightarrow> jsnum" where
  "js_div (Fin a) (Fin b) =
     (if b \<noteq> 0 then Fin (a / b)
      else if 0 < a then PosInf else if a < 0 then NegInf else NaN)"
| "js_div (Fin a) PosInf = Fin 0"
| "js_div (Fin a) NegInf = Fin 0"
| "js_div PosInf (Fin b) = (if 0 \<le> b then PosInf else NegInf)"
| "js_div NegInf (Fin b) = (if 0 \<le> b then NegInf else PosInf)"
| "js_div _ _ = NaN"

fun js_mul :: "jsnum \<Rightarrow> jsnum \<Rightarrow> jsnum" where
  "js_mul (Fin a) (Fin b) = Fin (a * b)"
| "js_mul (Fin a) PosInf = (if 0 < a then PosInf else if a < 0 then NegInf else NaN)"
| "js_mul (Fin a) NegInf = (if 0 < a then NegInf else if a < 0 then PosInf else NaN)"
| "js_mul PosInf (Fin b) = (if 0 < b then PosInf else if b < 0 then NegInf else NaN)"
| "js_mul NegInf (Fin b) = (if 0 < b then NegInf else if b < 0 then PosInf else NaN)"
| "js_mul PosInf PosInf = PosInf"
| "js_mul PosInf NegInf = NegInf"
| "js_mul NegInf PosInf = NegInf"
| "js_mul NegInf NegInf = PosInf"
| "js_mul _ _ = NaN"

fun js_add :: "jsnum \<Rightarrow> jsnum \<Rightarrow> jsnum" where
  "js_add (Fin a) (Fin b) = Fin (a + b)"
| "js_add (Fin a) PosInf = PosInf"
| "js_add (Fin a) NegInf = NegInf"
| "js_add PosInf (Fin b) = PosInf"
| "js_add NegInf (Fin b) = NegInf"
| "js_add PosInf PosInf = PosInf"
| "js_add NegInf NegInf = NegInf"
| "js_add _ _ = NaN"

fun js_neg :: "jsnum \<Rightarrow> jsnum" where
  "js_neg (Fin a) = Fin (- a)"
| "js_neg PosInf = NegInf"
| "js_neg NegInf = PosInf"
| "js_neg NaN = NaN"

definition js_sub :: "jsnum \<Rightarrow> jsnum \<Rightarrow> jsnum" where
  "js_sub a b = js_add a (js_neg b)"

text \<open>The comparison \<open>a > b\<close>; it is false as soon as one side is \<open>NaN\<close>.\<close>

fun js_gt :: "jsnum \<Rightarrow> jsnum \<Rightarrow> bool" where
  "js_gt (Fin a) (Fin b) = (b < a)"
| "js_gt PosInf (Fin b) = True"
| "js_gt PosInf NegInf = True"
| "js_gt (Fin a) NegInf = True"
| "js_gt _ _ = False"

fun is_finite :: "jsnum \<Rightarrow> bool" where
  "is_finite (Fin a) = True"
| "is_finite _ = False"

text \<open>
  Reading a numeric field in an arithmetic expression: an absent field reads as
  \<open>undefined\<close>, which arithmetic turns into \<open>NaN\<close>.
\<close>

fun num_field :: "real option \<Rightarrow> jsnum" where
  "num_field (Some v) = Fin v"
| "num_field None = NaN"

section \<open>Chart data and chart state\<close>

text \<open>
  The object handed to \<open>update\<close>: \<open>{laps: [...], selectedDistance}\<close>. The value itself
  may be \<open>null\<close> (an option at the call sites), and so may \<open>data.laps\<close>.
\<close>

record telemetry_data =
  laps :: "lap_ref list option"
  selectedDistance :: "real option"

record margins =
  m_top :: real
  m_right :: real
  m_bottom :: real
  m_left :: real

text \<open>A \<open>d3.scaleLinear\<close>: a domain of finite numbers and a range.\<close>

record 'n linear_scale =
  sdomain :: "real \<times> real"
  srange :: "'n \<times> 'n"

text \<open>
  Applying a linear scale with a finite range. A collapsed domain maps every input to the
  middle of the range, as d3 does.
\<close>

definition apply_scale :: "real linear_scale \<Rightarrow> real \<Rightarrow> real" where
  "apply_scale s v =
     (let d0 = fst (sdomain s); d1 = snd (sdomain s);
          r0 = fst (srange s); r1 = snd (srange s);
          t = (if d1 - d0 = 0 then 1 / 2 else (v - d0) / (d1 - d0))
      in r0 * (1 - t) + r1 * t)"

text \<open>The fields of \<open>BaseChart\<close> that the telemetry charts read and write.\<close>

record base_chart =
  margin :: margins
  width :: real
  height :: real
  lastData :: "telemetry_data option"

text \<open>
  \<open>BaseChart.init\<close>: the inner size is the container's bounding rectangle (a width or
  height of 0 falls back to 800 or 400) minus the margins. The rectangle is what the DOM
  reports at the time of the call.
\<close>

definition init :: "real \<times> real \<Rightarrow> 'a base_chart_scheme \<Rightarrow> 'a base_chart_scheme" where
  "init rect c =
     (let totalWidth = (if fst rect = 0 then 800 else fst rect);
          totalHeight = (if snd rect = 0 then 400 else snd rect)
      in c\<lparr>width := totalWidth - m_left (margin c) - m_right (margin c),
            height := totalHeight - m_top (margin c) - m_bottom (margin c)\<rparr>)"

text \<open>\<open>l.telemetry || []\<close>\<close>

definition telemetry_or_empty :: "lap \<Rightarrow> point list" where
  "telemetry_or_empty l = (case telemetry l of None \<Rightarrow> [] | Some t \<Rightarrow> t)"

text \<open>
  \<open>d3.max(points, accessor)\<close>: the largest value, skipping absent ones; \<open>undefined\<close>
  when there is none. \<open>d3.extent\<close> returns the smallest and the largest value.
\<close>

definition d3_max :: "real option list \<Rightarrow> real option" where
  "d3_max vs = (case List.map_filter id vs of [] \<Rightarrow> None | v # rest \<Rightarrow> Some (foldl max v rest))"

definition d3_extent :: "real option list \<Rightarrow> (real \<times> real) option" where
  "d3_extent vs =
     (case List.map_filter id vs of
        [] \<Rightarrow> None
      | v # rest \<Rightarrow> Some (foldl min v rest, foldl max v rest))"

text \<open>\<open>value || fallback\<close> for a number: \<open>undefined\<close> and \<open>0\<close> are falsy.\<close>

definition or_default :: "real option \<Rightarrow> real \<Rightarrow> real" where
  "or_default v dflt = (case v of None \<Rightarrow> dflt | Some x \<Rightarrow> if x = 0 then dflt else x)"

section \<open>MultiTelemetryChart\<close>

datatype channel = Speed | Delta | Throttle | Rpm | Gear | Drs

text \<open>What the constructor stores in \<open>this.channels\<close> and \<open>this.channelHeights\<close>.\<close>

definition default_channels :: "channel list" where
  "default_channels = [Speed, Delta, Throttle, Rpm, Gear, Drs]"

fun default_channelHeights :: "channel \<Rightarrow> real" where
  "default_channelHeights Speed = 0.35"
| "default_channelHeights Delta = 0.15"
| "default_channelHeights Throttle = 0.15"
| "default_channelHeights Rpm = 0.15"
| "default_channelHeights Gear = 0.1"
| "default_channelHeights Drs = 0.1"

text \<open>An entry of \<open>this.channelScales\<close>: \<open>{y, height, offset}\<close>.\<close>

record band =
  band_y :: "real linear_scale"
  band_height :: real
  band_offset :: real

record multi_chart = base_chart +
  channels :: "channel list"
  channelHeights :: "channel \<Rightarrow> real"
  xScale :: "real linear_scale option"
  channelScales :: "channel \<rightharpoonup> band"
  referenceLap :: "lap_ref option"

definition padding :: real where
  "padding = 10"

fun getChannelDomain :: "channel \<Rightarrow> point list \<Rightarrow> real \<times> real" where
  "getChannelDomain Speed points = (0, or_default (d3_max (map speed points)) 350 * 1.05)"
| "getChannelDomain Delta points = (- 2, 2)"
| "getChannelDomain Throttle points = (0, 100)"
| "getChannelDomain Rpm points = (0, or_default (d3_max (map rpm points)) 15000 * 1.05)"
| "getChannelDomain Gear points = (0, 8)"
| "getChannelDomain Drs points = (0, 1)"

text \<open>
  One round of \<open>this.channels.forEach\<close> in \<open>setupScales\<close>. The loop state is the running
  \<open>yOffset\<close> and the bands written so far, in the order they were written.
\<close>

definition layout_step ::
  "real \<Rightarrow> (channel \<Rightarrow> real) \<Rightarrow> point list \<Rightarrow> real \<times> (channel \<times> band) list \<Rightarrow> channel
     \<Rightarrow> real \<times> (channel \<times> band) list" where
  "layout_step h hts points st ch =
     (let yOffset = fst st;
          channelHeight = h * hts ch - padding;
          dm = getChannelDomain ch points;
          b = \<lparr>band_y = \<lparr>sdomain = dm, srange = (yOffset + channelHeight, yOffset)\<rparr>,
               band_height = channelHeight,
               band_offset = yOffset\<rparr>
      in (yOffset + channelHeight + padding, snd st @ [(ch, b)]))"

definition layout_bands ::
  "real \<Rightarrow> (channel \<Rightarrow> real) \<Rightarrow> point list \<Rightarrow> channel list \<Rightarrow> (channel \<times> band) list" where
  "layout_bands h hts points chs = snd (foldl (layout_step h hts points) (0, []) chs)"

text \<open>Storing the bands under their channel keys, a later write replacing an earlier one.\<close>

definition store_bands :: "(channel \<rightharpoonup> band) \<Rightarrow> (channel \<times> band) list \<Rightarrow> (channel \<rightharpoonup> band)" where
  "store_bands m bs = foldl (\<lambda>m cb. m(fst cb \<mapsto> snd cb)) m bs"

text \<open>
  \<open>MultiTelemetryChart.setupScales\<close>. It returns at once for missing data or an empty lap
  list; otherwise it builds the x scale and the bands, and then sets the reference lap to
  the first lap of the data.
\<close>

definition setupScales :: "lap_store \<Rightarrow> telemetry_data option \<Rightarrow> multi_chart \<Rightarrow> multi_chart" where
  "setupScales store data c =
     (case data of
        None \<Rightarrow> c
      | Some d \<Rightarrow>
         (case laps d of
            None \<Rightarrow> c
          | Some [] \<Rightarrow> c
          | Some (l0 # ls) \<Rightarrow>
             (let allPoints = concat (map (\<lambda>l. telemetry_or_empty (store l)) (l0 # ls));
                  maxDistance = or_default (d3_max (map (\<lambda>p. Some (distance p)) allPoints)) 5000;
                  bands = layout_bands (height c) (channelHeights c) allPoints (channels c)
              in c\<lparr>xScale := Some \<lparr>sdomain = (0, maxDistance), srange = (0, width c)\<rparr>,
                    channelScales := store_bands (channelScales c) bands,
                    referenceLap := Some l0\<rparr>)))"

text \<open>
  \<open>BaseChart.update\<close> for this chart: remember the data, \<open>init\<close>, \<open>setupScales\<close>. The
  closing \<open>render\<close> only draws and leaves the fields above as they are.
\<close>

definition update :: "lap_store \<Rightarrow> real \<times> real \<Rightarrow> telemetry_data option \<Rightarrow> multi_chart \<Rightarrow> multi_chart" where
  "update store rect data c = setupScales store data (init rect (c\<lparr>lastData := data\<rparr>))"

text \<open>\<open>MultiTelemetryChart.setReferenceLap\<close>\<close>

definition setReferenceLap :: "lap_store \<Rightarrow> real \<times> real \<Rightarrow> lap_ref option \<Rightarrow> multi_chart \<Rightarrow> multi_chart" where
  "setReferenceLap store rect l c =
     (let c1 = c\<lparr>referenceLap := l\<rparr>
      in case lastData c1 of None \<Rightarrow> c1 | Some d \<Rightarrow> update store rect (Some d) c1)"

text \<open>The chart as the constructor leaves it, with the default margins of this chart.\<close>

definition new_multi_chart :: multi_chart where
  "new_multi_chart =
     \<lparr>margin = \<lparr>m_top = 20, m_right = 80, m_bottom = 30, m_left = 60\<rparr>,
      width = 0, height = 0, lastData = None,
      channels = default_channels, channelHeights = default_channelHeights,
      xScale = None, channelScales = Map.empty, referenceLap = None\<rparr>"

text \<open>
  \<open>MultiTelemetryChart.calculateDelta(point, lap, data)\<close>. The test
  \<open>point.time_ms && refPoint.time_ms\<close> is a truthiness test: it fails for an absent value
  and also for the number 0. The reference lap's telemetry is only tested for presence, so
  the \<open>reduce\<close> throws on an empty one.
\<close>

definition truthy_num :: "real option \<Rightarrow> bool" where
  "truthy_num v = (case v of None \<Rightarrow> False | Some x \<Rightarrow> x \<noteq> 0)"

definition calculateDelta :: "multi_chart \<Rightarrow> lap_store \<Rightarrow> point \<Rightarrow> lap_ref \<Rightarrow> js_error + jsnum" where
  "calculateDelta c store point l =
     (case referenceLap c of
        None \<Rightarrow> Inr (Fin 0)
      | Some r \<Rightarrow>
         (case telemetry (store r) of
            None \<Rightarrow> Inr (Fin 0)
          | Some refTel \<Rightarrow>
             if l = r then Inr (Fin 0)
             else
               (case reduce1 (closer (distance point)) refTel of
                  Inl e \<Rightarrow> Inl e
                | Inr refPoint \<Rightarrow>
                   if truthy_num (time_ms point) \<and> truthy_num (time_ms refPoint)
                   then Inr (js_div (js_sub (num_field (time_ms point))
                                            (num_field (time_ms refPoint))) (Fin 1000))
                   else Inr (js_mul (js_sub (num_field (speed refPoint))
                                            (num_field (speed point))) (Fin 0.01)))))"

text \<open>
  The DRS branch of \<open>drawChannelData\<close>: a pass over the lap's telemetry that keeps the
  distance at which the current DRS run started and appends one rectangle each time a run
  is closed.
\<close>

record rect =
  rect_x :: real
  rect_y :: real
  rect_width :: real
  rect_height :: real

definition drsOn :: "point \<Rightarrow> bool" where
  "drsOn p = (case drs p of None \<Rightarrow> False | Some v \<Rightarrow> v \<noteq> 0 \<and> 0 < v)"

definition drs_step ::
  "real linear_scale \<Rightarrow> band \<Rightarrow> real option \<times> rect list \<Rightarrow> point \<Rightarrow> real option \<times> rect list" where
  "drs_step xs b st p =
     (case fst st of
        None \<Rightarrow> if drsOn p then (Some (distance p), snd st) else st
      | Some drsStart \<Rightarrow>
          if \<not> drsOn p
          then (None, snd st @ [\<lparr>rect_x = apply_scale xs drsStart,
                                  rect_y = band_offset b,
                                  rect_width = apply_scale xs (distance p) - apply_scale xs drsStart,
                                  rect_height = band_height b\<rparr>])
          else st)"

definition draw_drs :: "real linear_scale \<Rightarrow> band \<Rightarrow> point list \<Rightarrow> rect list" where
  "draw_drs xs b tel = snd (foldl (drs_step xs b) (None, []) tel)"

section \<open>TrackMapChart\<close>

text \<open>An entry of \<open>turns\<close>: \<open>{x, y, distance, speed, index}\<close>.\<close>

record marker =
  mk_x :: real
  mk_y :: real
  mk_distance :: real
  mk_speed :: real
  mk_index :: nat

record track_chart = base_chart +
  txScale :: "jsnum linear_scale option"
  tyScale :: "jsnum linear_scale option"
  turnMarkers :: "marker list"

text \<open>\<open>p.x != null && p.y != null\<close>, and with \<open>p.speed != null\<close> for the corner scan.\<close>

definition has_position :: "point \<Rightarrow> bool" where
  "has_position p = (px p \<noteq> None \<and> py p \<noteq> None)"

definition has_position_speed :: "point \<Rightarrow> bool" where
  "has_position_speed p = (px p \<noteq> None \<and> py p \<noteq> None \<and> speed p \<noteq> None)"

text \<open>
  \<open>TrackMapChart.setupScales\<close>. There are two early returns: no laps, and no point with
  a position. After them every point has an \<open>x\<close> and a \<open>y\<close>, so both extents exist (the
  last case of the model is never reached), and the scale and the offsets are computed
  by plain divisions.
\<close>

definition track_scales ::
  "real \<Rightarrow> real \<Rightarrow> real \<times> real \<Rightarrow> real \<times> real \<Rightarrow> jsnum linear_scale \<times> jsnum linear_scale" where
  "track_scales w h xExtent yExtent =
     (let dataWidth = Fin (snd xExtent - fst xExtent);
          dataHeight = Fin (snd yExtent - fst yExtent);
          dataAspect = js_div dataWidth dataHeight;
          chartAspect = js_div (Fin w) (Fin h);
          scale = (if js_gt dataAspect chartAspect
                   then js_div (Fin w) dataWidth
                   else js_div (Fin h) dataHeight);
          offsetX = js_div (js_sub (Fin w) (js_mul dataWidth scale)) (Fin 2);
          offsetY = js_div (js_sub (Fin h) (js_mul dataHeight scale)) (Fin 2)
      in (\<lparr>sdomain = xExtent, srange = (offsetX, js_add offsetX (js_mul dataWidth scale))\<rparr>,
          \<lparr>sdomain = yExtent, srange = (js_sub (Fin h) offsetY, offsetY)\<rparr>))"

text \<open>\<open>allPoints\<close>: the points of all laps that have a position, in lap order.\<close>

definition position_points :: "lap_store \<Rightarrow> lap_ref list \<Rightarrow> point list" where
  "position_points store ls =
     concat (map (\<lambda>l. filter has_position (telemetry_or_empty (store l))) ls)"

definition track_setupScales :: "lap_store \<Rightarrow> telemetry_data option \<Rightarrow> track_chart \<Rightarrow> track_chart" where
  "track_setupScales store data c =
     (case data of
        None \<Rightarrow> c
      | Some d \<Rightarrow>
         (case laps d of
            None \<Rightarrow> c
          | Some ls \<Rightarrow>
             if ls = [] then c
             else
               (let allPoints = position_points store ls
                in if allPoints = [] then c
                   else
                     (case (d3_extent (map px allPoints), d3_extent (map py allPoints)) of
                        (Some xExtent, Some yExtent) \<Rightarrow>
                           (let sc = track_scales (width c) (height c) xExtent yExtent
                            in c\<lparr>txScale := Some (fst sc), tyScale := Some (snd sc)\<rparr>)
                      | _ \<Rightarrow> c))))"

text \<open>The width and height of the projected extent, read off the two ranges.\<close>

definition projectedWidth :: "jsnum linear_scale \<Rightarrow> jsnum" where
  "projectedWidth xs = js_sub (snd (srange xs)) (fst (srange xs))"

definition projectedHeight :: "jsnum linear_scale \<Rightarrow> jsnum" where
  "projectedHeight ys = js_sub (fst (srange ys)) (snd (srange ys))"

text \<open>
  The uniform scale in the words of the specification: \<open>width / dataWidth\<close> if the data
  aspect exceeds the view aspect, else \<open>height / dataHeight\<close>. It is compared below with
  what \<open>track_scales\<close> computes.
\<close>

definition spec_scale :: "real \<Rightarrow> real \<Rightarrow> real \<Rightarrow> real \<Rightarrow> real" where
  "spec_scale w h dataWidth dataHeight =
     (if dataWidth / dataHeight > w / h then w / dataWidth else h / dataHeight)"

definition new_track_chart :: track_chart where
  "new_track_chart =
     \<lparr>margin = \<lparr>m_top = 20, m_right = 20, m_bottom = 20, m_left = 20\<rparr>,
      width = 0, height = 0, lastData = None,
      txScale = None, tyScale = None, turnMarkers = []\<rparr>"

text \<open>
  \<open>TrackMapChart.detectAndDrawTurns\<close>. The scan runs over the points that have a
  position and a speed, so the speed of a scanned point is present.
\<close>

definition windowSize :: nat where
  "windowSize = 20"

definition speedThreshold :: real where
  "speedThreshold = 0.85"

definition spd :: "point \<Rightarrow> real" where
  "spd p = the (speed p)"

definition surroundingSpeeds :: "point list \<Rightarrow> nat \<Rightarrow> real list" where
  "surroundingSpeeds points i =
     map (\<lambda>j. spd (points ! j)) (filter (\<lambda>j. j \<noteq> i) [i - windowSize ..< i + windowSize + 1])"

definition avgSurrounding :: "point list \<Rightarrow> nat \<Rightarrow> real" where
  "avgSurrounding points i =
     foldl (+) 0 (surroundingSpeeds points i) / real (length (surroundingSpeeds points i))"

definition isMinimum :: "point list \<Rightarrow> nat \<Rightarrow> bool" where
  "isMinimum points i =
     list_all (\<lambda>j. \<not> (j \<noteq> i \<and> j < length points \<and> spd (points ! j) < spd (points ! i)))
       [i - 5 ..< i + 6]"

definition turn_step :: "point list \<Rightarrow> marker list \<Rightarrow> nat \<Rightarrow> marker list" where
  "turn_step points turns i =
     (let currentSpeed = spd (points ! i) in
      if currentSpeed < avgSurrounding points i * speedThreshold then
        if isMinimum points i then
          if turns = [] \<or> \<bar>distance (points ! i) - mk_distance (last turns)\<bar> > 200
          then turns @ [\<lparr>mk_x = the (px (points ! i)),
                          mk_y = the (py (points ! i)),
                          mk_distance = distance (points ! i),
                          mk_speed = currentSpeed,
                          mk_index = length turns + 1\<rparr>]
          else turns
        else turns
      else turns)"

definition scan_turns :: "point list \<Rightarrow> marker list" where
  "scan_turns points = foldl (turn_step points) [] [windowSize ..< length points - windowSize]"

text \<open>
  The result is the list of markers that are drawn, and the chart. With fewer than 10
  usable points the method returns before anything is drawn or stored.
\<close>

definition detectAndDrawTurns :: "point list \<Rightarrow> track_chart \<Rightarrow> marker list \<times> track_chart" where
  "detectAndDrawTurns tel c =
     (let points = filter has_position_speed tel
      in if length points < 10 then ([], c)
         else (let turns = scan_turns points in (turns, c\<lparr>turnMarkers := turns\<rparr>)))"

section \<open>Concrete inputs\<close>

text \<open>
  A reference lap whose only sample is the start of the lap (distance 0, time 0, 300 km/h),
  and a sample of another lap shortly after its start (distance 2, 40 ms, 280 km/h).
\<close>

definition delta_ref_lap :: lap where
  "delta_ref_lap =
     \<lparr>driver_id = ''VER'', lap_number = 1,
      telemetry = Some [\<lparr>distance = 0, speed = Some 300, rpm = None, px = None, py = None,
                         time_ms = Some 0, drs = None\<rparr>]\<rparr>"

definition delta_target_point :: point where
  "delta_target_point =
     \<lparr>distance = 2, speed = Some 280, rpm = None, px = None, py = None,
      time_ms = Some 40, drs = None\<rparr>"

text \<open>Data with two laps, the objects at references 1 and 2.\<close>

definition two_laps :: telemetry_data where
  "two_laps = \<lparr>laps = Some [1, 2], selectedDistance = None\<rparr>"

text \<open>A point that carries a distance and a DRS code, and a scale and a band to draw on.\<close>

definition drs_point :: "real \<Rightarrow> real \<Rightarrow> point" where
  "drs_point d v = \<lparr>distance = d, speed = None, rpm = None, px = None, py = None,
                     time_ms = None, drs = Some v\<rparr>"

definition demo_xScale :: "real linear_scale" where
  "demo_xScale = \<lparr>sdomain = (0, 5000), srange = (0, 1000)\<rparr>"

definition demo_band :: band where
  "demo_band = \<lparr>band_y = \<lparr>sdomain = (0, 1), srange = (350, 320)\<rparr>,
                 band_height = 30, band_offset = 320\<rparr>"

text \<open>A point that carries a position, a distance and a speed.\<close>

definition pos_point :: "real \<Rightarrow> real \<Rightarrow> real \<Rightarrow> real \<Rightarrow> point" where
  "pos_point x y d s = \<lparr>distance = d, speed = Some s, rpm = None, px = Some x, py = Some y,
                         time_ms = None, drs = None\<rparr>"

text \<open>
  A lap whose samples all carry the same position (the backend fills \<open>x = 0, y = 0\<close> when
  it has no position data), and a lap with two different positions.
\<close>

definition stationary_lap :: lap where
  "stationary_lap =
     \<lparr>driver_id = ''HAM'', lap_number = 3,
      telemetry = Some [pos_point 0 0 0 250, pos_point 0 0 120 260]\<rparr>"

definition diagonal_lap :: lap where
  "diagonal_lap =
     \<lparr>driver_id = ''HAM'', lap_number = 4,
      telemetry = Some [pos_point 0 0 0 250, pos_point 100 50 120 260]\<rparr>"

definition one_lap :: telemetry_data where
  "one_lap = \<lparr>laps = Some [0], selectedDistance = None\<rparr>"

text \<open>
  Two laps of 45 positioned samples, 150 m apart. The first runs at 300 km/h except for
  two single-sample dips to 100 km/h at the samples 21 and 23; the second runs at a
  constant 250 km/h.
\<close>

definition dip_telemetry :: "point list" where
  "dip_telemetry =
     map (\<lambda>i. pos_point (real i) 0 (150 * real i) (if i = 21 \<or> i = 23 then 100 else 300)) [0 ..< 45]"



section \<open>Properties of the nearest-sample lookup\<close>

lemma foldl_closer_index:
  "\<exists>i \<le> length rest.
      foldl (closer d) p rest = (p # rest) ! i
    \<and> (\<forall>j \<le> length rest. \<bar>distance ((p # rest) ! i) - d\<bar> \<le> \<bar>distance ((p # rest) ! j) - d\<bar>)
    \<and> (\<forall>j < i. \<bar>distance ((p # rest) ! i) - d\<bar> < \<bar>distance ((p # rest) ! j) - d\<bar>)"
proof (induction rest rule: rev_induct)
  case Nil
  show ?case by simp
next
  case (snoc q rest)
  then obtain i where i: "i \<le> length rest"
    and res: "foldl (closer d) p rest = (p # rest) ! i"
    and mn: "\<forall>j \<le> length rest. \<bar>distance ((p # rest) ! i) - d\<bar> \<le> \<bar>distance ((p # rest) ! j) - d\<bar>"
    and st: "\<forall>j < i. \<bar>distance ((p # rest) ! i) - d\<bar> < \<bar>distance ((p # rest) ! j) - d\<bar>"
    by blast
  let ?all = "p # rest @ [q]"
  have pre: "\<And>j. j \<le> length rest \<Longrightarrow> ?all ! j = (p # rest) ! j"
    by (metis append_Cons le_imp_less_Suc length_Cons nth_append)
  have lastq: "?all ! Suc (length rest) = q"
    by (metis append_Cons length_Cons nth_append_length)
  show ?case
  proof (cases "\<bar>distance q - d\<bar> < \<bar>distance ((p # rest) ! i) - d\<bar>")
    case True
    have r: "foldl (closer d) p (rest @ [q]) = q"
      using True res by (simp add: closer_def)
    have a: "\<forall>j \<le> length (rest @ [q]). \<bar>distance q - d\<bar> \<le> \<bar>distance (?all ! j) - d\<bar>"
    proof (intro allI impI)
      fix j assume j: "j \<le> length (rest @ [q])"
      show "\<bar>distance q - d\<bar> \<le> \<bar>distance (?all ! j) - d\<bar>"
      proof (cases "j \<le> length rest")
        case True
        with mn pre \<open>\<bar>distance q - d\<bar> < \<bar>distance ((p # rest) ! i) - d\<bar>\<close> show ?thesis
          by fastforce
      next
        case False
        with j have "j = Suc (length rest)" by simp
        with lastq show ?thesis by simp
      qed
    qed
    have b: "\<forall>j < Suc (length rest). \<bar>distance q - d\<bar> < \<bar>distance (?all ! j) - d\<bar>"
    proof (intro allI impI)
      fix j assume "j < Suc (length rest)"
      then have j: "j \<le> length rest" by simp
      with mn pre True show "\<bar>distance q - d\<bar> < \<bar>distance (?all ! j) - d\<bar>"
        by fastforce
    qed
    show ?thesis
      apply (rule exI [of _ "Suc (length rest)"])
      using r a b lastq by simp
  next
    case False
    have r: "foldl (closer d) p (rest @ [q]) = (p # rest) ! i"
      using False res by (simp add: closer_def)
    have a: "\<forall>j \<le> length (rest @ [q]).
               \<bar>distance ((p # rest) ! i) - d\<bar> \<le> \<bar>distance (?all ! j) - d\<bar>"
    proof (intro allI impI)
      fix j assume j: "j \<le> length (rest @ [q])"
      show "\<bar>distance ((p # rest) ! i) - d\<bar> \<le> \<bar>distance (?all ! j) - d\<bar>"
      proof (cases "j \<le> length rest")
        case True
        with mn pre show ?thesis by simp
      next
        case False
        with j have "j = Suc (length rest)" by simp
        with lastq \<open>\<not> \<bar>distance q - d\<bar> < \<bar>distance ((p # rest) ! i) - d\<bar>\<close>
        show ?thesis by simp
      qed
    qed
    have b: "\<forall>j < i. \<bar>distance ((p # rest) ! i) - d\<bar> < \<bar>distance (?all ! j) - d\<bar>"
      using st pre i by simp
    have ii: "?all ! i = (p # rest) ! i" using pre i by simp
    show ?thesis
      apply (rule exI [of _ i])
      using r a b i ii by simp
  qed
qed

text \<open>
  C1. For a lap with a non-empty telemetry list and any target distance, the lookup
  returns a sample of the list whose absolute distance to the target is minimal, and
  among the samples at that minimal absolute distance it is the one with the lowest index:
  every sample before it is strictly farther from the target.
\<close>

theorem nearest_point_min_earliest:
  assumes "tel \<noteq> []"
  shows "\<exists>i < length tel.
           nearest_point tel d = Inr (tel ! i)
         \<and> (\<forall>j < length tel. \<bar>distance (tel ! i) - d\<bar> \<le> \<bar>distance (tel ! j) - d\<bar>)
         \<and> (\<forall>j < i. \<bar>distance (tel ! i) - d\<bar> < \<bar>distance (tel ! j) - d\<bar>)"
proof -
  from assms obtain p rest where tel: "tel = p # rest" by (cases tel) auto
  from foldl_closer_index [of rest d p] obtain i where
    "i \<le> length rest" "foldl (closer d) p rest = (p # rest) ! i"
    "\<forall>j \<le> length rest. \<bar>distance ((p # rest) ! i) - d\<bar> \<le> \<bar>distance ((p # rest) ! j) - d\<bar>"
    "\<forall>j < i. \<bar>distance ((p # rest) ! i) - d\<bar> < \<bar>distance ((p # rest) ! j) - d\<bar>"
    by blast
  then show ?thesis
    unfolding tel nearest_point_def reduce1_def
    by (intro exI [of _ i]) (simp add: less_Suc_eq_le)
qed

theorem nearest_point_min_earliest_witness:
  "[mk_point 0 300, mk_point 10 280, mk_point 20 250, mk_point 30 270] \<noteq> []
   \<and> (\<exists>i < length [mk_point 0 300, mk_point 10 280, mk_point 20 250, mk_point 30 270].
         nearest_point [mk_point 0 300, mk_point 10 280, mk_point 20 250, mk_point 30 270] 15
           = Inr ([mk_point 0 300, mk_point 10 280, mk_point 20 250, mk_point 30 270] ! i)
       \<and> (\<forall>j < length [mk_point 0 300, mk_point 10 280, mk_point 20 250, mk_point 30 270].
             \<bar>distance ([mk_point 0 300, mk_point 10 280, mk_point 20 250, mk_point 30 270] ! i) - 15\<bar>
               \<le> \<bar>distance ([mk_point 0 300, mk_point 10 280, mk_point 20 250, mk_point 30 270] ! j) - 15\<bar>)
       \<and> (\<forall>j < i.
             \<bar>distance ([mk_point 0 300, mk_point 10 280, mk_point 20 250, mk_point 30 270] ! i) - 15\<bar>
               < \<bar>distance ([mk_point 0 300, mk_point 10 280, mk_point 20 250, mk_point 30 270] ! j) - 15\<bar>))"
  using nearest_point_min_earliest [of "[mk_point 0 300, mk_point 10 280, mk_point 20 250, mk_point 30 270]" 15]
  by blast

text \<open>
  The two lookups of the specification's example, samples at distances 0, 10, 20 and 30:
  the target 24 gives the sample at 20, and the tie at 15 gives the sample at 10. On an
  empty list the \<open>reduce\<close> itself throws; the handlers test the length before they call it.
\<close>

lemma nearest_point_example_24:
  "nearest_point [mk_point 0 300, mk_point 10 280, mk_point 20 250, mk_point 30 270] 24 = Inr (mk_point 20 250)"
  by (simp add: nearest_point_def reduce1_def closer_def mk_point_def)

lemma nearest_point_example_tie:
  "nearest_point [mk_point 0 300, mk_point 10 280, mk_point 20 250, mk_point 30 270] 15 = Inr (mk_point 10 280)"
  by (simp add: nearest_point_def reduce1_def closer_def mk_point_def)

lemma nearest_point_empty: "nearest_point [] d = Inl TypeError"
  by (simp add: nearest_point_def reduce1_def)

section \<open>Properties of the channel layout\<close>

text \<open>
  The loop of \<open>setupScales\<close> started at any offset and with any bands already written:
  what it adds to the offset, how many bands it appends, and what each appended band holds.
\<close>

lemma layout_fold:
  "foldl (layout_step h hts pts) (y, acc) chs = (y', bs) \<Longrightarrow>
     y' = y + h * sum_list (map hts chs)
   \<and> length bs = length acc + length chs
   \<and> take (length acc) bs = acc
   \<and> sum_list (map (\<lambda>cb. band_height (snd cb)) bs) + real (length chs) * padding
       = sum_list (map (\<lambda>cb. band_height (snd cb)) acc) + h * sum_list (map hts chs)
   \<and> (\<forall>k < length chs. fst (bs ! (length acc + k))  = chs ! k
        \<and> band_height (snd (bs ! (length acc + k))) = h * hts (chs ! k) - padding
        \<and> band_offset (snd (bs ! (length acc + k))) = y + h * sum_list (map hts (take k chs)))"
proof (induction chs arbitrary: y acc y' bs)
  case Nil
  then show ?case by simp
next
  case (Cons c chs)
  let ?b = "\<lparr>band_y = \<lparr>sdomain = getChannelDomain c pts, srange = (y + (h * hts c - padding), y)\<rparr>,
               band_height = h * hts c - padding, band_offset = y\<rparr>"
  have step: "layout_step h hts pts (y, acc) c = (y + h * hts c, acc @ [(c, ?b)])"
    by (simp add: layout_step_def Let_def)
  from Cons.prems have f: "foldl (layout_step h hts pts) (y + h * hts c, acc @ [(c, ?b)]) chs = (y', bs)"
    by (simp add: step)
  note ih = Cons.IH [OF f]
  from ih have y': "y' = y + h * hts c + h * sum_list (map hts chs)" by simp
  from ih have len: "length bs = length acc + 1 + length chs" by simp
  from ih have tk: "take (Suc (length acc)) bs = acc @ [(c, ?b)]" by simp
  from ih have sm: "sum_list (map (\<lambda>cb. band_height (snd cb)) bs) + real (length chs) * padding
       = sum_list (map (\<lambda>cb. band_height (snd cb)) (acc @ [(c, ?b)])) + h * sum_list (map hts chs)" by blast
  from ih have nth: "\<forall>k < length chs. fst (bs ! (Suc (length acc) + k))  = chs ! k
        \<and> band_height (snd (bs ! (Suc (length acc) + k))) = h * hts (chs ! k) - padding
        \<and> band_offset (snd (bs ! (Suc (length acc) + k))) = y + h * hts c + h * sum_list (map hts (take k chs))"
    by simp
  have "take (length acc) bs = take (length acc) (take (Suc (length acc)) bs)"
    by (simp add: min_def)
  also have "\<dots> = acc" by (simp add: tk)
  finally have tk2: "take (length acc) bs = acc" .
  have b0: "bs ! length acc = (c, ?b)"
    by (metis tk len nth_take lessI nth_append_length)
  have "\<forall>k < length (c # chs). fst (bs ! (length acc + k))  = (c # chs) ! k
        \<and> band_height (snd (bs ! (length acc + k))) = h * hts ((c # chs) ! k) - padding
        \<and> band_offset (snd (bs ! (length acc + k))) = y + h * sum_list (map hts (take k (c # chs)))"
  proof (intro allI impI)
    fix k assume k: "k < length (c # chs)"
    show "fst (bs ! (length acc + k))  = (c # chs) ! k
        \<and> band_height (snd (bs ! (length acc + k))) = h * hts ((c # chs) ! k) - padding
        \<and> band_offset (snd (bs ! (length acc + k))) = y + h * sum_list (map hts (take k (c # chs)))"
    proof (cases k)
      case 0
      then show ?thesis using b0 by simp
    next
      case (Suc m)
      with k have "m < length chs" by simp
      with nth Suc show ?thesis by (simp add: algebra_simps)
    qed
  qed
  moreover have "sum_list (map (\<lambda>cb. band_height (snd cb)) bs) + real (length (c # chs)) * padding
       = sum_list (map (\<lambda>cb. band_height (snd cb)) acc) + h * sum_list (map hts (c # chs))"
    using sm by (simp add: algebra_simps)
  ultimately show ?case using y' len tk2 by (simp add: algebra_simps)
qed


text \<open>
  C2, as the code has it. Every band also reserves the padding below it, the last band
  included, so the band heights plus one padding per band (not one per gap) add up to the
  total height times the sum of the weights: the total height itself when the weights sum
  to 1. Each band's height is the total height times its weight minus the padding, the
  first band starts at 0, and each later band starts at the end of the band before it
  plus the padding.
\<close>

theorem layout_bands_sum_offsets:
  "let bs = layout_bands h hts pts chs in
         length bs = length chs
       \<and> sum_list (map (\<lambda>cb. band_height (snd cb)) bs) + real (length chs) * padding
            = h * sum_list (map hts chs)
       \<and> (sum_list (map hts chs) = 1 \<longrightarrow>
            sum_list (map (\<lambda>cb. band_height (snd cb)) bs) + real (length chs) * padding = h)
       \<and> (\<forall>k < length chs.
              fst (bs ! k) = chs ! k
            \<and> band_height (snd (bs ! k)) = h * hts (chs ! k) - padding
            \<and> band_offset (snd (bs ! k))
                = (if k = 0 then 0
                   else band_offset (snd (bs ! (k - 1))) + band_height (snd (bs ! (k - 1))) + padding))"
proof -
  define bs where "bs = layout_bands h hts pts chs"
  obtain y' where f: "foldl (layout_step h hts pts) (0, []) chs = (y', bs)"
    unfolding bs_def layout_bands_def by (metis prod.collapse)
  note L = layout_fold [OF f]
  from L have len: "length bs = length chs" by simp
  from L have sm: "sum_list (map (\<lambda>cb. band_height (snd cb)) bs) + real (length chs) * padding
            = h * sum_list (map hts chs)" by simp
  from L have nth: "\<And>k. k < length chs \<Longrightarrow> fst (bs ! k) = chs ! k
        \<and> band_height (snd (bs ! k)) = h * hts (chs ! k) - padding
        \<and> band_offset (snd (bs ! k)) = h * sum_list (map hts (take k chs))"
    by simp
  have off: "band_offset (snd (bs ! k))
                = (if k = 0 then 0
                   else band_offset (snd (bs ! (k - 1))) + band_height (snd (bs ! (k - 1))) + padding)"
    if k: "k < length chs" for k
  proof (cases k)
    case 0
    with nth [OF k] show ?thesis by simp
  next
    case (Suc m)
    with k have m: "m < length chs" by simp
    have "take (Suc m) chs = take m chs @ [chs ! m]"
      using m by (rule take_Suc_conv_app_nth)
    then have "h * sum_list (map hts (take (Suc m) chs))
             = h * sum_list (map hts (take m chs)) + h * hts (chs ! m)"
      by (simp add: algebra_simps)
    with nth [OF k] nth [OF m] Suc show ?thesis by simp
  qed
  show ?thesis
    unfolding Let_def bs_def [symmetric] using len sm nth off by simp
qed

theorem layout_bands_sum_offsets_witness:
  "let bs = layout_bands 400 default_channelHeights [] default_channels in
     length bs = 6
   \<and> sum_list (map (\<lambda>cb. band_height (snd cb)) bs) + 6 * padding = 400
   \<and> band_height (snd (bs ! 1)) = 400 * 0.15 - padding
   \<and> band_offset (snd (bs ! 1)) = band_offset (snd (bs ! 0)) + band_height (snd (bs ! 0)) + padding"
proof -
  have six: "length default_channels = 6" "default_channels ! Suc 0 = Delta"
    and one: "sum_list (map default_channelHeights default_channels) = 1"
    by (simp_all add: default_channels_def)
  have k: "(1::nat) < length default_channels" by (simp add: six)
  show ?thesis
    using layout_bands_sum_offsets [of 400 default_channelHeights "[]" default_channels] k one
    unfolding Let_def by (auto simp add: six)
qed

text \<open>
  The constructor's six channels on a height of 400: the bands are 130, 50, 50, 50, 30 and
  30 high and start at 0, 140, 200, 260, 320 and 360.
\<close>

lemma layout_bands_default_400:
  "map (\<lambda>cb. (band_height (snd cb), band_offset (snd cb)))
       (layout_bands 400 default_channelHeights [] default_channels)
    = [(130, 0), (50, 140), (50, 200), (50, 260), (30, 320), (30, 360)]"
  by (simp add: layout_bands_def layout_step_def default_channels_def padding_def)

text \<open>
  C2, as the specification words it, fails on the constructor's own channels: their
  weights sum to 1, and on a height of 400 the band heights plus five paddings give 390.
\<close>

theorem layout_bands_gap_sum_counterexample:
  "sum_list (map default_channelHeights default_channels) \<le> 1
   \<and> sum_list (map (\<lambda>cb. band_height (snd cb))
                  (layout_bands 400 default_channelHeights [] default_channels))
       + (real (length default_channels) - 1) * padding \<noteq> 400"
  by (simp add: layout_bands_def layout_step_def default_channels_def padding_def)

section \<open>Properties of the delta estimator\<close>

text \<open>
  When the target lap is not the reference lap and both the target sample and the nearest
  reference sample carry a non-zero \<open>time_ms\<close>, the delta is the difference of the two in
  seconds.
\<close>

lemma calculateDelta_exact:
  assumes "referenceLap c = Some r" "telemetry (store r) = Some refTel" "l \<noteq> r"
    and "nearest_point refTel (distance p) = Inr refPoint"
    and "time_ms p = Some t" "time_ms refPoint = Some t0" "t \<noteq> 0" "t0 \<noteq> 0"
  shows "calculateDelta c store p l = Inr (Fin ((t - t0) / 1000))"
  using assms
  by (simp add: calculateDelta_def nearest_point_def truthy_num_def js_sub_def)

text \<open>As soon as one of the two carries the value 0, the speed estimate is returned.\<close>

lemma calculateDelta_zero_time:
  assumes "referenceLap c = Some r" "telemetry (store r) = Some refTel" "l \<noteq> r"
    and "nearest_point refTel (distance p) = Inr refPoint"
    and "time_ms p = Some 0 \<or> time_ms refPoint = Some 0"
  shows "calculateDelta c store p l
           = Inr (js_mul (js_sub (num_field (speed refPoint)) (num_field (speed p))) (Fin 0.01))"
  using assms
  by (auto simp add: calculateDelta_def nearest_point_def truthy_num_def)

text \<open>
  C3. The delta should be \<open>(target.time_ms - reference.time_ms) / 1000\<close> whenever both
  samples carry the value, also when one of them is 0. On the reference sample at the
  start of the lap (time 0, 300 km/h) and a target sample at 40 ms and 280 km/h the code
  returns the speed estimate \<open>(300 - 280) * 0.01 = 0.2\<close>, not \<open>40 / 1000\<close>.
\<close>

theorem calculateDelta_zero_time_ms_falls_back:
  "calculateDelta (new_multi_chart\<lparr>referenceLap := Some 0\<rparr>) (\<lambda>r. delta_ref_lap)
       delta_target_point 1 = Inr (Fin 0.2)
   \<and> Inr (Fin 0.2) \<noteq> (Inr (Fin ((40 - 0) / 1000)) :: js_error + jsnum)"
  by (simp add: calculateDelta_def new_multi_chart_def delta_ref_lap_def delta_target_point_def
        reduce1_def truthy_num_def js_sub_def)

text \<open>
  C8. The delta is 0 for every sample and every target lap when no reference lap is set,
  and 0 for every sample when the target lap is the reference lap.
\<close>

theorem calculateDelta_no_or_same_reference:
  "calculateDelta (c\<lparr>referenceLap := None\<rparr>) store p l = Inr (Fin 0)
   \<and> calculateDelta (c\<lparr>referenceLap := Some l\<rparr>) store p l = Inr (Fin 0)"
  by (simp add: calculateDelta_def split: option.split)

section \<open>The reference lap across updates\<close>

text \<open>Every update with a non-empty lap list sets the reference lap to its first lap.\<close>

lemma update_referenceLap:
  "laps d = Some (l0 # ls) \<Longrightarrow> referenceLap (update store rect (Some d) c) = Some l0"
  by (simp add: update_def setupScales_def Let_def)

text \<open>
  So once data with laps has been shown, \<open>setReferenceLap\<close> leaves the first lap of that
  data as the reference, whatever lap it was given.
\<close>

lemma setReferenceLap_overwritten:
  "lastData c = Some d \<Longrightarrow> laps d = Some (l0 # ls) \<Longrightarrow>
     referenceLap (setReferenceLap store rect L c) = Some l0"
  by (simp add: setReferenceLap_def update_referenceLap Let_def)

text \<open>
  C9. After an update with the laps 1 and 2, the call \<open>setReferenceLap(lap 2)\<close> ends
  with lap 1 as the reference lap: the re-render it triggers runs \<open>setupScales\<close>, which
  assigns the first lap again. A delta for lap 1 is then 0, as for the reference lap.
\<close>

theorem setReferenceLap_reset_by_update:
  "referenceLap (setReferenceLap store (800, 400) (Some 2)
       (update store (800, 400) (Some two_laps) new_multi_chart)) = Some 1
   \<and> calculateDelta (setReferenceLap store (800, 400) (Some 2)
       (update store (800, 400) (Some two_laps) new_multi_chart)) store p 1 = Inr (Fin 0)"
proof -
  have r: "referenceLap (setReferenceLap store (800, 400) (Some 2)
       (update store (800, 400) (Some two_laps) new_multi_chart)) = Some 1"
    by (simp add: setReferenceLap_def update_def setupScales_def Let_def two_laps_def init_def)
  then show ?thesis
    by (simp add: calculateDelta_def split: option.split)
qed

section \<open>Properties of the DRS rectangles\<close>

text \<open>A sample with DRS active never adds a rectangle, whatever the state of the pass.\<close>

lemma drs_fold_active:
  "\<forall>p \<in> set run. drsOn p \<Longrightarrow> snd (foldl (drs_step xs b) st run) = snd st"
proof (induction run arbitrary: st)
  case Nil
  show ?case by simp
next
  case (Cons p run)
  then have "drsOn p" by simp
  then have "snd (drs_step xs b st p) = snd st"
    by (simp add: drs_step_def split: option.split)
  with Cons show ?case by simp
qed

text \<open>
  C10. A rectangle is appended only at a sample with DRS inactive. So when the telemetry
  ends with a run of samples that all have DRS active, the rectangles are those of the
  telemetry before that run: the trailing run draws nothing.
\<close>

theorem draw_drs_trailing_run_dropped:
  assumes "\<forall>p \<in> set run. drsOn p"
  shows "draw_drs xs b (pre @ run) = draw_drs xs b pre"
  using drs_fold_active [OF assms] by (simp add: draw_drs_def)

theorem draw_drs_trailing_run_dropped_witness:
  "drsOn (drs_point 3000 12) \<and> drsOn (drs_point 3400 12)
   \<and> draw_drs demo_xScale demo_band
        ([drs_point 1000 12, drs_point 2000 0] @ [drs_point 3000 12, drs_point 3400 12])
      = [\<lparr>rect_x = 200, rect_y = 320, rect_width = 200, rect_height = 30\<rparr>]"
proof -
  have on: "\<forall>p \<in> set [drs_point 3000 12, drs_point 3400 12]. drsOn p"
    by (simp add: drsOn_def drs_point_def)
  have pre: "draw_drs demo_xScale demo_band [drs_point 1000 12, drs_point 2000 0]
      = [\<lparr>rect_x = 200, rect_y = 320, rect_width = 200, rect_height = 30\<rparr>]"
    by (simp add: draw_drs_def drs_step_def drsOn_def drs_point_def demo_xScale_def
          demo_band_def apply_scale_def)
  show ?thesis
    using on pre draw_drs_trailing_run_dropped [OF on, of demo_xScale demo_band
        "[drs_point 1000 12, drs_point 2000 0]"]
    by simp
qed

text \<open>A lap that has DRS active on every sample gets no rectangle at all.\<close>

lemma draw_drs_all_active: "\<forall>p \<in> set tel. drsOn p \<Longrightarrow> draw_drs xs b tel = []"
  using drs_fold_active [of tel xs b "(None, [])"] by (simp add: draw_drs_def)

section \<open>Properties of the track projection\<close>

text \<open>
  The extents are what they should be: both ends occur among the values, and every value
  lies between them.
\<close>

lemma foldl_min_bounds:
  fixes v :: real
  shows "foldl min v rest \<in> set (v # rest) \<and> (\<forall>x \<in> set (v # rest). foldl min v rest \<le> x)"
proof (induction rest arbitrary: v)
  case Nil
  show ?case by simp
next
  case (Cons r rest)
  from Cons [of "min v r"] show ?case by (auto simp add: min_def split: if_splits)
qed

lemma foldl_max_bounds:
  fixes v :: real
  shows "foldl max v rest \<in> set (v # rest) \<and> (\<forall>x \<in> set (v # rest). x \<le> foldl max v rest)"
proof (induction rest arbitrary: v)
  case Nil
  show ?case by simp
next
  case (Cons r rest)
  from Cons [of "max v r"] show ?case by (auto simp add: max_def split: if_splits)
qed

lemma set_map_filter_id: "set (List.map_filter id vs) = {v. Some v \<in> set vs}"
  by (induction vs) (auto simp add: List.map_filter_simps split: option.splits)

lemma d3_extent_bounds:
  assumes "d3_extent vs = Some (a, b)"
  shows "Some a \<in> set vs \<and> Some b \<in> set vs \<and> (\<forall>v. Some v \<in> set vs \<longrightarrow> a \<le> v \<and> v \<le> b)"
proof -
  from assms obtain v rest where l: "List.map_filter id vs = v # rest"
    and a: "a = foldl min v rest" and b: "b = foldl max v rest"
    by (auto simp add: d3_extent_def split: list.splits)
  have s: "set (v # rest) = {v. Some v \<in> set vs}"
    using set_map_filter_id [of vs] l by simp
  from foldl_min_bounds [of v rest] foldl_max_bounds [of v rest] show ?thesis
    unfolding a b s by blast
qed

text \<open>
  With a positive data extent and a positive viewport no divisor is zero, and the scales
  have the closed form below.
\<close>

lemma track_scales_nondegenerate:
  fixes w h xMin xMax yMin yMax :: real
  assumes x: "xMin < xMax" and y: "yMin < yMax" and w: "0 < w" and h: "0 < h"
  shows "track_scales w h (xMin, xMax) (yMin, yMax)
          = (let dw = xMax - xMin; dh = yMax - yMin;
                 scale = (if w / h < dw / dh then w / dw else h / dh);
                 offsetX = (w - dw * scale) / 2; offsetY = (h - dh * scale) / 2
             in (\<lparr>sdomain = (xMin, xMax), srange = (Fin offsetX, Fin (offsetX + dw * scale))\<rparr>,
                 \<lparr>sdomain = (yMin, yMax), srange = (Fin (h - offsetY), Fin offsetY)\<rparr>))"
proof -
  have nz: "xMax - xMin \<noteq> 0" "yMax - yMin \<noteq> 0" "h \<noteq> 0" using x y h by simp_all
  show ?thesis
  proof (cases "w / h < (xMax - xMin) / (yMax - yMin)")
    case True
    then show ?thesis using nz by (simp add: track_scales_def Let_def js_sub_def)
  next
    case False
    then show ?thesis using nz by (simp add: track_scales_def Let_def js_sub_def)
  qed
qed

lemma scale_fits:
  fixes w h dw dh :: real
  assumes "0 < dw" "0 < dh" "0 < w" "0 < h"
  shows "0 < (if w / h < dw / dh then w / dw else h / dh)"
    and "dw * (if w / h < dw / dh then w / dw else h / dh) \<le> w"
    and "dh * (if w / h < dw / dh then w / dw else h / dh) \<le> h"
proof -
  show "0 < (if w / h < dw / dh then w / dw else h / dh)" using assms by simp
  show "dw * (if w / h < dw / dh then w / dw else h / dh) \<le> w"
  proof (cases "w / h < dw / dh")
    case True
    then show ?thesis using assms by simp
  next
    case False
    then have "dw / dh \<le> w / h" by simp
    then have "dw * h \<le> w * dh" using assms by (simp add: field_simps)
    then have "dw * (h / dh) \<le> w" using assms by (simp add: field_simps)
    with False show ?thesis by simp
  qed
  show "dh * (if w / h < dw / dh then w / dw else h / dh) \<le> h"
  proof (cases "w / h < dw / dh")
    case True
    then have "w * dh < dw * h" using assms by (simp add: field_simps)
    then have "dh * (w / dw) \<le> h" using assms by (simp add: field_simps)
    with True show ?thesis by simp
  next
    case False
    then show ?thesis using assms by simp
  qed
qed

text \<open>
  C4. For laps whose positioned samples span a positive width and a positive height, on
  a viewport of positive width and height, \<open>setupScales\<close> uses the single scale of the
  specification for both axes. The projected width and height are the data width and
  height times that scale, so their ratio is the data's aspect ratio. The projected
  extent lies inside the viewport with equal margins left and right (\<open>offsetX\<close>) and top
  and bottom (\<open>offsetY\<close>), and the y range runs downwards: the smallest y is drawn at
  \<open>height - offsetY\<close>, the largest at \<open>offsetY\<close>.
\<close>

theorem track_setupScales_uniform_scale:
  assumes "laps d = Some ls" "ls \<noteq> []"
    and "d3_extent (map px (position_points store ls)) = Some (xMin, xMax)"
    and "d3_extent (map py (position_points store ls)) = Some (yMin, yMax)"
    and "xMin < xMax" "yMin < yMax" "0 < width c" "0 < height c"
  shows "\<exists>xs ys scale offsetX offsetY.
      txScale (track_setupScales store (Some d) c) = Some xs
    \<and> tyScale (track_setupScales store (Some d) c) = Some ys
    \<and> scale = spec_scale (width c) (height c) (xMax - xMin) (yMax - yMin)
    \<and> sdomain xs = (xMin, xMax)
    \<and> srange xs = (Fin offsetX, Fin (offsetX + (xMax - xMin) * scale))
    \<and> sdomain ys = (yMin, yMax)
    \<and> srange ys = (Fin (height c - offsetY), Fin offsetY)
    \<and> projectedWidth xs = Fin ((xMax - xMin) * scale)
    \<and> projectedHeight ys = Fin ((yMax - yMin) * scale)
    \<and> js_div (projectedWidth xs) (projectedHeight ys) = Fin ((xMax - xMin) / (yMax - yMin))
    \<and> offsetX = (width c - (xMax - xMin) * scale) / 2
    \<and> offsetY = (height c - (yMax - yMin) * scale) / 2
    \<and> 0 \<le> offsetX \<and> offsetX + (xMax - xMin) * scale = width c - offsetX
    \<and> 0 \<le> offsetY \<and> offsetY < height c - offsetY"
proof -
  let ?dw = "xMax - xMin" and ?dh = "yMax - yMin"
  define scale where
    "scale = (if width c / height c < ?dw / ?dh then width c / ?dw else height c / ?dh)"
  define offsetX offsetY where "offsetX = (width c - ?dw * scale) / 2"
    and "offsetY = (height c - ?dh * scale) / 2"
  define xs ys where
    "xs = \<lparr>sdomain = (xMin, xMax), srange = (Fin offsetX, Fin (offsetX + ?dw * scale))\<rparr>"
    and "ys = \<lparr>sdomain = (yMin, yMax), srange = (Fin (height c - offsetY), Fin offsetY)\<rparr>"
  have pos: "0 < ?dw" "0 < ?dh" using assms(5,6) by simp_all
  have ts: "track_scales (width c) (height c) (xMin, xMax) (yMin, yMax) = (xs, ys)"
    using track_scales_nondegenerate [OF assms(5-8)]
    by (simp add: Let_def xs_def ys_def offsetX_def offsetY_def scale_def)
  have ne: "position_points store ls \<noteq> []"
    using assms(3) by (auto simp add: d3_extent_def List.map_filter_simps)
  have res: "track_setupScales store (Some d) c = c\<lparr>txScale := Some xs, tyScale := Some ys\<rparr>"
    using assms(1-4) ts ne by (simp add: track_setupScales_def Let_def)
  have fits: "0 < scale" "?dw * scale \<le> width c" "?dh * scale \<le> height c"
    using scale_fits [OF pos assms(7,8)] by (simp_all add: scale_def)
  have 1: "txScale (track_setupScales store (Some d) c) = Some xs" by (simp add: res)
  have 2: "tyScale (track_setupScales store (Some d) c) = Some ys" by (simp add: res)
  have 3: "scale = spec_scale (width c) (height c) ?dw ?dh"
    by (simp add: scale_def spec_scale_def)
  have 4: "sdomain xs = (xMin, xMax)" by (simp add: xs_def)
  have 5: "srange xs = (Fin offsetX, Fin (offsetX + ?dw * scale))" by (simp add: xs_def)
  have 6: "sdomain ys = (yMin, yMax)" by (simp add: ys_def)
  have 7: "srange ys = (Fin (height c - offsetY), Fin offsetY)" by (simp add: ys_def)
  have 8: "projectedWidth xs = Fin (?dw * scale)"
    by (simp add: projectedWidth_def xs_def js_sub_def)
  have 9: "projectedHeight ys = Fin (?dh * scale)"
    by (simp add: projectedHeight_def ys_def js_sub_def offsetY_def field_simps)
  have nz: "?dh * scale \<noteq> 0" using pos fits(1) by simp
  have 10: "js_div (projectedWidth xs) (projectedHeight ys) = Fin (?dw / ?dh)"
    unfolding 8 9 using nz fits(1) by simp
  have 11: "offsetX = (width c - ?dw * scale) / 2" by (rule offsetX_def)
  have 12: "offsetY = (height c - ?dh * scale) / 2" by (rule offsetY_def)
  have 13: "0 \<le> offsetX" using fits(2) by (simp add: offsetX_def)
  have 14: "offsetX + ?dw * scale = width c - offsetX" by (simp add: offsetX_def field_simps)
  have 15: "0 \<le> offsetY" using fits(3) by (simp add: offsetY_def)
  have "0 < ?dh * scale" using pos fits(1) by simp
  then have 16: "offsetY < height c - offsetY" by (simp add: offsetY_def field_simps)
  from 1 2 3 4 5 6 7 8 9 10 11 12 13 14 15 16 show ?thesis by blast
qed

theorem track_setupScales_uniform_scale_witness:
  "laps one_lap = Some [0] \<and> [0::nat] \<noteq> []
   \<and> d3_extent (map px (position_points (\<lambda>r. diagonal_lap) [0])) = Some (0, 100)
   \<and> d3_extent (map py (position_points (\<lambda>r. diagonal_lap) [0])) = Some (0, 50)
   \<and> (0::real) < 100 \<and> (0::real) < 50
   \<and> 0 < width (init (800, 400) new_track_chart)
   \<and> 0 < height (init (800, 400) new_track_chart)
   \<and> (\<exists>xs ys.
        txScale (track_setupScales (\<lambda>r. diagonal_lap) (Some one_lap) (init (800, 400) new_track_chart))
          = Some xs
      \<and> tyScale (track_setupScales (\<lambda>r. diagonal_lap) (Some one_lap) (init (800, 400) new_track_chart))
          = Some ys
      \<and> srange xs = (Fin 20, Fin 740) \<and> srange ys = (Fin 360, Fin 0)
      \<and> js_div (projectedWidth xs) (projectedHeight ys) = Fin 2)"
proof -
  let ?c = "init (800, 400) new_track_chart"
  have h1: "laps one_lap = Some [0]" by (simp add: one_lap_def)
  have h2: "[0::nat] \<noteq> []" by simp
  have h3: "d3_extent (map px (position_points (\<lambda>r. diagonal_lap) [0])) = Some (0, 100)"
    by (simp add: position_points_def diagonal_lap_def telemetry_or_empty_def has_position_def
          pos_point_def d3_extent_def List.map_filter_simps)
  have h4: "d3_extent (map py (position_points (\<lambda>r. diagonal_lap) [0])) = Some (0, 50)"
    by (simp add: position_points_def diagonal_lap_def telemetry_or_empty_def has_position_def
          pos_point_def d3_extent_def List.map_filter_simps)
  have h5: "(0::real) < 100" and h6: "(0::real) < 50" by simp_all
  have wh: "width ?c = 760" "height ?c = 360"
    by (simp_all add: init_def new_track_chart_def)
  have h7: "0 < width ?c" and h8: "0 < height ?c" by (simp_all add: wh)
  have sc: "spec_scale 760 360 100 50 = 36 / 5" by (simp add: spec_scale_def)
  from track_setupScales_uniform_scale [OF h1 h2 h3 h4 h5 h6 h7 h8]
  have "\<exists>xs ys.
        txScale (track_setupScales (\<lambda>r. diagonal_lap) (Some one_lap) ?c) = Some xs
      \<and> tyScale (track_setupScales (\<lambda>r. diagonal_lap) (Some one_lap) ?c) = Some ys
      \<and> srange xs = (Fin 20, Fin 740) \<and> srange ys = (Fin 360, Fin 0)
      \<and> js_div (projectedWidth xs) (projectedHeight ys) = Fin 2"
    by (auto simp add: wh sc)
  with h1 h2 h3 h4 h5 h6 h7 h8 show ?thesis by blast
qed

section \<open>Degenerate input to the track projection\<close>

text \<open>Without laps, and without a positioned sample, the chart is returned as it is.\<close>

lemma track_setupScales_no_positions:
  "laps d = Some ls \<Longrightarrow> position_points store ls = [] \<Longrightarrow>
     track_setupScales store (Some d) c = c"
  by (simp add: track_setupScales_def d3_extent_def List.map_filter_simps Let_def split: option.split)

lemma track_setupScales_no_laps:
  "track_setupScales store None c = c" 
  "laps d = None \<Longrightarrow> track_setupScales store (Some d) c = c"
  "laps d = Some [] \<Longrightarrow> track_setupScales store (Some d) c = c"
  by (simp_all add: track_setupScales_def)


text \<open>
  There is no test of the extents. With a zero width and a zero height the data aspect is
  \<open>0 / 0\<close>, the comparison fails, and the scale is \<open>height / 0\<close>.
\<close>

lemma track_scales_zero_extent:
  "track_scales 760 360 (0, 0) (0, 0)
     = (\<lparr>sdomain = (0, 0), srange = (NaN, NaN)\<rparr>, \<lparr>sdomain = (0, 0), srange = (NaN, NaN)\<rparr>)
   \<and> js_div (Fin 360) (Fin (0 - 0)) = PosInf"
  by (simp add: track_scales_def Let_def js_sub_def)

text \<open>
  C5. For a lap whose samples all sit at one position the bounding box has zero width and
  zero height. \<open>setupScales\<close> does not return early: it divides by the zero extents and
  stores scales whose ranges are \<open>NaN\<close>.
\<close>

theorem track_setupScales_zero_extent_nan:
  "txScale (track_setupScales (\<lambda>r. stationary_lap) (Some one_lap) (init (800, 400) new_track_chart))
     = Some \<lparr>sdomain = (0, 0), srange = (NaN, NaN)\<rparr>
   \<and> tyScale (track_setupScales (\<lambda>r. stationary_lap) (Some one_lap) (init (800, 400) new_track_chart))
     = Some \<lparr>sdomain = (0, 0), srange = (NaN, NaN)\<rparr>"
  by (simp add: track_setupScales_def track_scales_def position_points_def stationary_lap_def
        telemetry_or_empty_def has_position_def pos_point_def d3_extent_def
        List.map_filter_simps one_lap_def init_def new_track_chart_def Let_def js_sub_def)

section \<open>Properties of the corner detection\<close>

subsection \<open>Order, separation and numbering of the markers\<close>

text \<open>
  The loop invariant: the markers found so far are pairwise more than 200 apart in
  increasing order, they are numbered from 1, and each was taken from a point before the
  current index. One round of the loop keeps it when the points are sorted by distance.
\<close>

lemma gap_le_last:
  assumes "sorted_wrt (\<lambda>a b. mk_distance a + 200 < mk_distance b) turns" "m \<in> set turns"
  shows "mk_distance m \<le> mk_distance (last turns)"
proof -
  from assms(2) obtain k where k: "k < length turns" "turns ! k = m"
    by (auto simp add: in_set_conv_nth)
  then have ne: "turns \<noteq> []" by auto
  show ?thesis
  proof (cases "k = length turns - 1")
    case True
    with k ne show ?thesis by (simp add: last_conv_nth)
  next
    case False
    with k have "k < length turns - 1" by simp
    with sorted_wrt_nth_less [OF assms(1), of k "length turns - 1"] k ne
    show ?thesis by (simp add: last_conv_nth)
  qed
qed

lemma turn_step_cases:
  "turn_step points turns i = turns
   \<or> (\<exists>m. turn_step points turns i = turns @ [m]
          \<and> mk_distance m = distance (points ! i)
          \<and> mk_index m = length turns + 1
          \<and> (turns = [] \<or> \<bar>distance (points ! i) - mk_distance (last turns)\<bar> > 200))"
  by (simp add: turn_step_def Let_def)

lemma turn_step_inv:
  assumes srt: "sorted_wrt (\<lambda>p q. distance p \<le> distance q) points"
    and i: "i < length points"
    and gap: "sorted_wrt (\<lambda>a b. mk_distance a + 200 < mk_distance b) turns"
    and idx: "map mk_index turns = [1 ..< Suc (length turns)]"
    and org: "\<forall>m \<in> set turns. \<exists>k < i. mk_distance m = distance (points ! k)"
  shows "sorted_wrt (\<lambda>a b. mk_distance a + 200 < mk_distance b) (turn_step points turns i)
       \<and> map mk_index (turn_step points turns i) = [1 ..< Suc (length (turn_step points turns i))]
       \<and> (\<forall>m \<in> set (turn_step points turns i). \<exists>k < Suc i. mk_distance m = distance (points ! k))"
proof -
  from turn_step_cases [of points turns i]
  consider (same) "turn_step points turns i = turns"
    | (app) m where "turn_step points turns i = turns @ [m]"
        "mk_distance m = distance (points ! i)" "mk_index m = length turns + 1"
        "turns = [] \<or> \<bar>distance (points ! i) - mk_distance (last turns)\<bar> > 200"
    by blast
  then show ?thesis
  proof cases
    case same
    with gap idx org show ?thesis by (auto intro: less_SucI)
  next
    case app
    note st = app(1) and md = app(2) and mi = app(3) and far = app(4)
    have before: "mk_distance a + 200 < mk_distance m" if a: "a \<in> set turns" for a
    proof -
      from a have ne: "turns \<noteq> []" by auto
      then have "last turns \<in> set turns" by simp
      with org obtain k where k: "k < i" "mk_distance (last turns) = distance (points ! k)"
        by blast
      have "distance (points ! k) \<le> distance (points ! i)"
        using sorted_wrt_nth_less [OF srt k(1) i] by simp
      with far ne k(2) have "mk_distance (last turns) + 200 < distance (points ! i)" by simp
      with gap_le_last [OF gap a] md show ?thesis by simp
    qed
    have g: "sorted_wrt (\<lambda>a b. mk_distance a + 200 < mk_distance b) (turns @ [m])"
      using gap before by (simp add: sorted_wrt_append)
    have x: "map mk_index (turns @ [m]) = [1 ..< Suc (length (turns @ [m]))]"
      using idx mi by simp
    have o: "\<forall>a \<in> set (turns @ [m]). \<exists>k < Suc i. mk_distance a = distance (points ! k)"
      using org md by (auto intro: less_SucI)
    from g x o show ?thesis unfolding st by blast
  qed
qed

lemma scan_prefix_inv:
  assumes srt: "sorted_wrt (\<lambda>p q. distance p \<le> distance q) points"
  shows "b \<le> length points \<Longrightarrow>
       sorted_wrt (\<lambda>a b. mk_distance a + 200 < mk_distance b) (foldl (turn_step points) [] [a ..< b])
     \<and> map mk_index (foldl (turn_step points) [] [a ..< b])
         = [1 ..< Suc (length (foldl (turn_step points) [] [a ..< b]))]
     \<and> (\<forall>m \<in> set (foldl (turn_step points) [] [a ..< b]).
           \<exists>k < b. mk_distance m = distance (points ! k))"
proof (induction b)
  case 0
  show ?case by simp
next
  case (Suc b)
  then have b: "b < length points" and ih:
      "sorted_wrt (\<lambda>a b. mk_distance a + 200 < mk_distance b) (foldl (turn_step points) [] [a ..< b])"
      "map mk_index (foldl (turn_step points) [] [a ..< b])
         = [1 ..< Suc (length (foldl (turn_step points) [] [a ..< b]))]"
      "\<forall>m \<in> set (foldl (turn_step points) [] [a ..< b]).
           \<exists>k < b. mk_distance m = distance (points ! k)"
    by simp_all
  show ?case
  proof (cases "a \<le> b")
    case True
    then have "foldl (turn_step points) [] [a ..< Suc b]
             = turn_step points (foldl (turn_step points) [] [a ..< b]) b"
      by simp
    with turn_step_inv [OF srt b ih] show ?thesis by simp
  next
    case False
    then show ?thesis by simp
  qed
qed

text \<open>
  C6. For telemetry sorted ascending by distance, the markers of \<open>detectAndDrawTurns\<close>
  are strictly increasing in distance, two consecutive markers are more than 200 apart,
  and the marker at position \<open>k\<close> (from 0) carries the index \<open>k + 1\<close>.
\<close>

theorem detectAndDrawTurns_markers_ordered:
  assumes "sorted_wrt (\<lambda>p q. distance p \<le> distance q) tel"
  shows "let turns = fst (detectAndDrawTurns tel c) in
           sorted_wrt (\<lambda>a b. mk_distance a < mk_distance b) turns
         \<and> (\<forall>k. Suc k < length turns \<longrightarrow>
               mk_distance (turns ! Suc k) - mk_distance (turns ! k) > 200)
         \<and> (\<forall>k < length turns. mk_index (turns ! k) = k + 1)"
proof -
  define turns where "turns = fst (detectAndDrawTurns tel c)"
  let ?pts = "filter has_position_speed tel"
  have srt: "sorted_wrt (\<lambda>p q. distance p \<le> distance q) ?pts"
    using assms by (rule sorted_wrt_filter)
  have "turns = [] \<or> turns = scan_turns ?pts"
    by (simp add: turns_def detectAndDrawTurns_def Let_def)
  moreover have "length ?pts - windowSize \<le> length ?pts" by simp
  note scan_prefix_inv [OF srt this, of windowSize]
  ultimately have gap: "sorted_wrt (\<lambda>a b. mk_distance a + 200 < mk_distance b) turns"
    and idx: "map mk_index turns = [1 ..< Suc (length turns)]"
    by (auto simp add: scan_turns_def)
  have 1: "sorted_wrt (\<lambda>a b. mk_distance a < mk_distance b) turns"
    by (rule sorted_wrt_mono_rel [OF _ gap]) simp
  have 2: "\<forall>k. Suc k < length turns \<longrightarrow>
               mk_distance (turns ! Suc k) - mk_distance (turns ! k) > 200"
    using sorted_wrt_nth_less [OF gap] by (simp add: less_diff_eq add.commute)
  have 3: "\<forall>k < length turns. mk_index (turns ! k) = k + 1"
  proof (intro allI impI)
    fix k assume k: "k < length turns"
    then have "mk_index (turns ! k) = map mk_index turns ! k" by simp
    also have "\<dots> = [1 ..< Suc (length turns)] ! k" by (simp only: idx)
    also have "\<dots> = k + 1" using k by (simp del: upt_Suc)
    finally show "mk_index (turns ! k) = k + 1" .
  qed
  from 1 2 3 show ?thesis unfolding Let_def turns_def [symmetric] by blast
qed

theorem detectAndDrawTurns_markers_ordered_witness:
  "sorted_wrt (\<lambda>p q. distance p \<le> distance q) dip_telemetry
   \<and> length (fst (detectAndDrawTurns dip_telemetry new_track_chart)) = 2
   \<and> sorted_wrt (\<lambda>a b. mk_distance a < mk_distance b)
         (fst (detectAndDrawTurns dip_telemetry new_track_chart))
   \<and> mk_distance (fst (detectAndDrawTurns dip_telemetry new_track_chart) ! 1)
       - mk_distance (fst (detectAndDrawTurns dip_telemetry new_track_chart) ! 0) > 200
   \<and> mk_index (fst (detectAndDrawTurns dip_telemetry new_track_chart) ! 0) = 1
   \<and> mk_index (fst (detectAndDrawTurns dip_telemetry new_track_chart) ! 1) = 2"
proof -
  define turns where "turns = fst (detectAndDrawTurns dip_telemetry new_track_chart)"
  have h: "sorted_wrt (\<lambda>p q. distance p \<le> distance q) dip_telemetry"
    by code_simp
  have l: "length turns = 2"
    unfolding turns_def by code_simp
  from detectAndDrawTurns_markers_ordered [OF h, of new_track_chart]
  have s: "sorted_wrt (\<lambda>a b. mk_distance a < mk_distance b) turns"
    and g: "\<And>k. Suc k < length turns \<Longrightarrow>
               mk_distance (turns ! Suc k) - mk_distance (turns ! k) > 200"
    and x: "\<And>k. k < length turns \<Longrightarrow> mk_index (turns ! k) = k + 1"
    unfolding Let_def turns_def by blast+
  from g [of 0] l have g0: "mk_distance (turns ! 1) - mk_distance (turns ! 0) > 200" by simp
  from x [of 0] x [of 1] l have x01: "mk_index (turns ! 0) = 1" "mk_index (turns ! 1) = 2"
    by simp_all
  from h l s g0 x01 show ?thesis unfolding turns_def by blast
qed

text \<open>On the lap with the two dips the scan finds both, 300 m apart.\<close>

lemma detectAndDrawTurns_two_dips:
  "map (\<lambda>m. (mk_index m, mk_distance m, mk_speed m))
       (fst (detectAndDrawTurns dip_telemetry new_track_chart))
     = [(1, 3150, 100), (2, 3450, 100)]"
  by code_simp

subsection \<open>Profiles without a corner\<close>














end
